theory Spec2Isabelle
  imports Complex_Main
begin

section \<open>Conversion of dynamic decoupling sequences to gate circuits\<close>

text \<open>
  A shallow embedding of \<^verbatim>\<open>qctrlopencontrols/qiskit/quantum_circuit.py\<close>.
  Python floats are idealised as real numbers, Python's unbounded integers are \<open>int\<close>,
  exceptions are values of the type \<open>error\<close>, and the circuit object that the
  conversion drives is the list of the instructions appended to it, in order.
\<close>

subsection \<open>Data\<close>

text \<open>
  The fields of a \<^verbatim>\<open>DynamicDecouplingSequence\<close> that the module reads. The four arrays
  are one-dimensional; nothing here assumes that their lengths agree.
\<close>

record dds =
  offsets :: "real list"
  rabi_rotations :: "real list"
  azimuthal_angles :: "real list"
  detuning_rotations :: "real list"

text \<open>
  The first argument of the conversion: \<^verbatim>\<open>None\<close>, an object of another class, or an
  instance of \<^verbatim>\<open>DynamicDecouplingSequence\<close>.
\<close>

datatype sequence_argument = NoSequence | OtherObject | Sequence dds

text \<open>The values that the raised exceptions carry in their dictionaries.\<close>

datatype pyval =
    PyNone
  | PyType
  | PyInt int
  | PyFloat real
  | PyStr string
  | PyInts "int list"
  | PyFloats "real list"
  | PyMatrix "real list list"
  | PySequenceStr dds

text \<open>
  \<^verbatim>\<open>ArgumentsValueError(description, arguments, extras)\<close> is the only exception class
  that the module raises itself (an absent \<^verbatim>\<open>extras\<close> is the empty list);
  \<open>ValueError\<close> and \<open>IndexError\<close> are the built-in exceptions of \<^verbatim>\<open>max\<close>,
  \<^verbatim>\<open>numpy.vstack\<close> and of indexing.
\<close>

datatype error =
    ArgumentsValueError string "(string \<times> pyval) list" "(string \<times> pyval) list"
  | ValueError
  | IndexError

text \<open>
  The calls made on the circuit, with the index handed to the register lookup
  \<^verbatim>\<open>quantum_registers[qubit]\<close> as it is written. \<open>BarrierAll\<close> is the barrier over the
  whole register, \<open>Measure q c\<close> measures qubit \<open>q\<close> into the classical position \<open>c\<close>.
\<close>

datatype instr =
    U3 real real real int
  | U1 real int
  | Iden int
  | Barrier int
  | BarrierAll
  | Measure int nat

record quantum_circuit =
  qubits :: int
  clbits :: "nat option"
  name :: "string option"
  data :: "instr list"

subsection \<open>Library functions used by the module\<close>

text \<open>\<^verbatim>\<open>numpy.isclose(a, b)\<close> with its default tolerances \<^verbatim>\<open>rtol=1e-05\<close>, \<^verbatim>\<open>atol=1e-08\<close>.\<close>

definition isclose :: "real \<Rightarrow> real \<Rightarrow> bool" where
  "isclose a b = (\<bar>a - b\<bar> \<le> 1 / 100000000 + 1 / 100000 * \<bar>b\<bar>)"

text \<open>\<^verbatim>\<open>numpy.any\<close> of a list of integers: some element is not zero.\<close>

definition np_any :: "int list \<Rightarrow> bool" where
  "np_any xs = list_ex (\<lambda>x. x \<noteq> 0) xs"

text \<open>Python's \<^verbatim>\<open>max\<close> of a list raises \<^verbatim>\<open>ValueError\<close> on the empty list.\<close>

fun py_max :: "int list \<Rightarrow> error + int" where
  "py_max [] = Inl ValueError"
| "py_max (x # xs) = Inr (fold max xs x)"

text \<open>
  Modelled from the spec: the module \<^verbatim>\<open>constants.py\<close> that defines
  \<^verbatim>\<open>FIX_DURATION_UNITARY\<close> and \<^verbatim>\<open>INSTANT_UNITARY\<close> is not among the sources; the two
  mode names are the ones the documentation of the conversion gives.
\<close>

definition FIX_DURATION_UNITARY :: string where
  "FIX_DURATION_UNITARY = ''Fixed duration unitary''"

definition INSTANT_UNITARY :: string where
  "INSTANT_UNITARY = ''Instant unitary''"

subsection \<open>The gate list of a sequence\<close>

text \<open>The descriptions of the exceptions raised while the gate list is built and walked.\<close>

definition offsets_message :: string where
  "offsets_message = ''Offsets cannot be placed properly''"

definition multiple_pulses_message :: string where
  "multiple_pulses_message =
     ''Open Controls support a sequence with one valid pulse at any offset. Found sequence with multiple rotation operations at an offset.''"

text \<open>The rows of \<^verbatim>\<open>operations = np.vstack((rabi_rotations, azimuthal_angles, detuning_rotations))\<close>.\<close>

definition operations :: "dds \<Rightarrow> real list list" where
  "operations d = [rabi_rotations d, azimuthal_angles d, detuning_rotations d]"

text \<open>The exception raised for an offset that lies before the time already covered.\<close>

definition offsets_error :: "dds \<Rightarrow> error" where
  "offsets_error d =
     ArgumentsValueError offsets_message [(''sequence_operations'', PyMatrix (operations d))] []"

text \<open>
  The inner \<^verbatim>\<open>while\<close> loop, which appends identity gates. It need not terminate (it
  runs forever when \<open>gate_time \<le> 0\<close> and the condition holds once), so it is a partial
  function: \<open>None\<close> is the loop that never ends.
\<close>

partial_function (option) id_gates_loop ::
  "real \<Rightarrow> real \<Rightarrow> real \<Rightarrow> nat \<Rightarrow> string list \<Rightarrow> (nat \<times> string list) option" where
  "id_gates_loop time_covered gate_time offset number_of_id_gates circuit_operations =
     (if time_covered + (real number_of_id_gates + 1) * gate_time \<le> offset
      then id_gates_loop time_covered gate_time offset (number_of_id_gates + 1)
             (circuit_operations @ [''id''])
      else Some (number_of_id_gates, circuit_operations))"

text \<open>
  One iteration of the \<^verbatim>\<open>for\<close> loop of \<^verbatim>\<open>_get_circuit_gate_list\<close>, on the state
  \<open>(time_covered, circuit_operations)\<close>. Reading \<^verbatim>\<open>offsets\<close> beyond its end raises
  \<^verbatim>\<open>IndexError\<close>; the loop runs \<open>operation_idx\<close> over the columns of
  \<^verbatim>\<open>operations\<close>, so the three rotation arrays are read within their common length.
\<close>

definition gate_list_step ::
  "dds \<Rightarrow> real \<Rightarrow> real \<Rightarrow> nat \<Rightarrow> real \<times> string list \<Rightarrow> (error + real \<times> string list) option" where
  "gate_list_step d gate_time unitary_time operation_idx s =
     (case s of (time_covered, circuit_operations) \<Rightarrow>
        if length (offsets d) \<le> operation_idx then Some (Inl IndexError)
        else
          let distance = offsets d ! operation_idx - time_covered;
              offset_distance = (if isclose distance 0 then 0 else distance)
          in
            if offset_distance < 0 then
              Some (Inl (offsets_error d))
            else if offset_distance = 0 then
              Some (Inr
                (if isclose (rabi_rotations d ! operation_idx
                              + azimuthal_angles d ! operation_idx
                              + detuning_rotations d ! operation_idx) 0
                 then offsets d ! operation_idx
                 else offsets d ! operation_idx + unitary_time,
                 circuit_operations @ [''offset'']))
            else
              (case id_gates_loop time_covered gate_time (offsets d ! operation_idx) 0
                      circuit_operations of
                 None \<Rightarrow> None
               | Some (number_of_id_gates, ops) \<Rightarrow>
                   Some (Inr (offsets d ! operation_idx + unitary_time, ops @ [''offset'']))))"

text \<open>The \<^verbatim>\<open>for\<close> loop over the indices, stopping at the first exception.\<close>

fun gate_list_loop ::
  "dds \<Rightarrow> real \<Rightarrow> real \<Rightarrow> nat list \<Rightarrow> real \<times> string list \<Rightarrow> (error + real \<times> string list) option" where
  "gate_list_loop d gate_time unitary_time [] s = Some (Inr s)"
| "gate_list_loop d gate_time unitary_time (operation_idx # rest) s =
     (case gate_list_step d gate_time unitary_time operation_idx s of
        None \<Rightarrow> None
      | Some (Inl e) \<Rightarrow> Some (Inl e)
      | Some (Inr s') \<Rightarrow> gate_list_loop d gate_time unitary_time rest s')"

text \<open>
  \<^verbatim>\<open>_get_circuit_gate_list\<close>. \<^verbatim>\<open>numpy.vstack\<close> raises \<^verbatim>\<open>ValueError\<close> when the three
  rows differ in length; the loop runs over the columns of the stacked array.
\<close>

definition get_circuit_gate_list :: "dds \<Rightarrow> real \<Rightarrow> real \<Rightarrow> (error + string list) option" where
  "get_circuit_gate_list d gate_time unitary_time =
     (if length (azimuthal_angles d) \<noteq> length (rabi_rotations d)
         \<or> length (detuning_rotations d) \<noteq> length (rabi_rotations d)
      then Some (Inl ValueError)
      else
        (case gate_list_loop d gate_time unitary_time [0..<length (rabi_rotations d)] (0, []) of
           None \<Rightarrow> None
         | Some (Inl e) \<Rightarrow> Some (Inl e)
         | Some (Inr (time_covered, circuit_operations)) \<Rightarrow> Some (Inr circuit_operations)))"

subsection \<open>Rotations of a pulse\<close>

text \<open>\<^verbatim>\<open>_get_rotations\<close>, on the array \<open>[rabi_rotation, azimuthal_angle, detuning_rotation]\<close>.\<close>

definition get_rotations :: "real list \<Rightarrow> real list" where
  "get_rotations operation =
     [operation ! 0 * cos (operation ! 1), operation ! 0 * sin (operation ! 1), operation ! 2]"

text \<open>The number of rotations that are not close to zero.\<close>

definition nonzero_pulse_counts :: "real list \<Rightarrow> nat" where
  "nonzero_pulse_counts rotations = length (filter (\<lambda>rotation. \<not> isclose rotation 0) rotations)"

text \<open>What the walk appends for one pulse on one target qubit: a gate, then a barrier.\<close>

definition pulse_gates :: "real list \<Rightarrow> int \<Rightarrow> instr list" where
  "pulse_gates rotations qubit =
     (if nonzero_pulse_counts rotations = 0 then [U3 0 0 0 qubit]
      else if \<not> isclose (rotations ! 0) 0 then [U3 (rotations ! 0) (- pi / 2) (pi / 2) qubit]
      else if \<not> isclose (rotations ! 1) 0 then [U3 (rotations ! 1) 0 0 qubit]
      else if \<not> isclose (rotations ! 2) 0 then [U1 (rotations ! 2) qubit]
      else [])
     @ [Barrier qubit]"

text \<open>
  The pulse read at the pulse pointer:
  \<^verbatim>\<open>np.array([rabi_rotations[offset_count], azimuthal_angles[offset_count], detuning_rotations[offset_count]])\<close>.
\<close>

definition instance_operation :: "dds \<Rightarrow> nat \<Rightarrow> real list" where
  "instance_operation d offset_count =
     [rabi_rotations d ! offset_count,
      azimuthal_angles d ! offset_count,
      detuning_rotations d ! offset_count]"

text \<open>The exception raised for a pulse with more than one rotation that is not close to zero.\<close>

definition multiple_pulses_error :: "dds \<Rightarrow> nat \<Rightarrow> error" where
  "multiple_pulses_error d offset_count =
     ArgumentsValueError multiple_pulses_message
       [(''dynamic_decoupling_sequence'', PySequenceStr d),
        (''instance_operation'', PyFloats (instance_operation d offset_count))] []"

text \<open>
  The walk over the gate list, on the state \<open>(offset_count, emitted instructions)\<close>. An
  exception leaves the instructions emitted so far behind it. Reading one of the three
  arrays beyond its end raises \<^verbatim>\<open>IndexError\<close>.
\<close>

fun walk_gate_list ::
  "dds \<Rightarrow> int list \<Rightarrow> string list \<Rightarrow> nat \<Rightarrow> instr list \<Rightarrow> instr list \<times> (error + nat)" where
  "walk_gate_list d target_qubits [] offset_count emitted = (emitted, Inr offset_count)"
| "walk_gate_list d target_qubits (gate # gates) offset_count emitted =
     (if gate = ''id'' then
        walk_gate_list d target_qubits gates offset_count
          (emitted @ concat (map (\<lambda>qubit. [Iden qubit, Barrier qubit]) target_qubits))
      else if length (rabi_rotations d) \<le> offset_count
              \<or> length (azimuthal_angles d) \<le> offset_count
              \<or> length (detuning_rotations d) \<le> offset_count
      then (emitted, Inl IndexError)
      else
        let rotations = get_rotations (instance_operation d offset_count)
        in
          if nonzero_pulse_counts rotations > 1 then
            (emitted, Inl (multiple_pulses_error d offset_count))
          else
            walk_gate_list d target_qubits gates (offset_count + 1)
              (emitted @ concat (map (pulse_gates rotations) target_qubits)))"

subsection \<open>The conversion\<close>

text \<open>
  The quantum register: the supplied one (given by its length) when it holds every target
  qubit, a fresh one of size \<open>max(target_qubits) + 1\<close> when none is supplied.
\<close>

definition quantum_register_size :: "int list \<Rightarrow> nat option \<Rightarrow> error + int" where
  "quantum_register_size target_qubits quantum_registers =
     (case quantum_registers of
        Some n \<Rightarrow>
          (case py_max target_qubits of
             Inl e \<Rightarrow> Inl e
           | Inr m \<Rightarrow>
               if m + 1 > int n then
                 Inl (ArgumentsValueError ''Target qubit is not present in quantum_registers''
                        [(''target_qubits'', PyInts target_qubits),
                         (''size(quantum_registers)'', PyInt (int n))]
                        [(''max(target_qubits)'', PyInt m)])
               else Inr (int n))
      | None \<Rightarrow>
          (case py_max target_qubits of
             Inl e \<Rightarrow> Inl e
           | Inr m \<Rightarrow> Inr (m + 1)))"

text \<open>The calibration gate before the sequence, with a barrier on the same qubit.\<close>

definition pre_gates :: "real list \<Rightarrow> int list \<Rightarrow> instr list" where
  "pre_gates pre_post_gate_parameters target_qubits =
     concat (map (\<lambda>qubit. [U3 (pre_post_gate_parameters ! 0) (pre_post_gate_parameters ! 1)
                              (pre_post_gate_parameters ! 2) qubit,
                           Barrier qubit]) target_qubits)"

text \<open>The calibration gate after the sequence, with a barrier over the whole register.\<close>

definition post_gates :: "real list \<Rightarrow> int list \<Rightarrow> instr list" where
  "post_gates pre_post_gate_parameters target_qubits =
     concat (map (\<lambda>qubit. [U3 (pre_post_gate_parameters ! 0) (pre_post_gate_parameters ! 1)
                              (pre_post_gate_parameters ! 2) qubit,
                           BarrierAll]) target_qubits)"

definition measurements :: "int list \<Rightarrow> instr list" where
  "measurements target_qubits =
     map (\<lambda>(q_index, qubit). Measure qubit q_index) (enumerate 0 target_qubits)"

text \<open>
  \<^verbatim>\<open>convert_dds_to_quantum_circuit\<close>. The result is \<open>None\<close> when the call never
  returns; otherwise it is the list of the instructions appended to the circuit during the
  call, with the exception raised or the circuit returned.
\<close>

definition convert_dds_to_quantum_circuit ::
  "sequence_argument \<Rightarrow> int list option \<Rightarrow> real \<Rightarrow> real list option \<Rightarrow> bool \<Rightarrow> string
     \<Rightarrow> nat option \<Rightarrow> string option \<Rightarrow> (instr list \<times> (error + quantum_circuit)) option" where
  "convert_dds_to_quantum_circuit dynamic_decoupling_sequence target_qubits_arg gate_time
       pre_post_gate_parameters_arg add_measurement algorithm quantum_registers circuit_name =
     (case dynamic_decoupling_sequence of
        NoSequence \<Rightarrow>
          Some ([], Inl (ArgumentsValueError ''No dynamic decoupling sequence provided.''
                           [(''dynamic_decoupling_sequence'', PyNone)] []))
      | OtherObject \<Rightarrow>
          Some ([], Inl (ArgumentsValueError
                           ''Dynamical decoupling sequence is not recognized.Expected DynamicDecouplingSequence instance''
                           [(''type(dynamic_decoupling_sequence)'', PyType)] []))
      | Sequence d \<Rightarrow>
          let target_qubits = (case target_qubits_arg of None \<Rightarrow> [0] | Some t \<Rightarrow> t);
              pre_post_gate_parameters =
                (case pre_post_gate_parameters_arg of
                   None \<Rightarrow> [pi / 2, - pi / 2, pi / 2] | Some p \<Rightarrow> p)
          in
            if length pre_post_gate_parameters \<noteq> 3 then
              Some ([], Inl (ArgumentsValueError
                               ''Pre-Post gate parameters must be a list of 3 floating point numbers.''
                               [(''pre_post_gate_params'', PyFloats pre_post_gate_parameters)] []))
            else if gate_time \<le> 0 then
              Some ([], Inl (ArgumentsValueError
                               ''Time delay of identity gate must be greater than zero.''
                               [(''identity_gate_time'', PyFloat gate_time)] []))
            else if of_bool (np_any target_qubits) < (0::int) then
              Some ([], Inl (ArgumentsValueError
                               ''Every target qubits index must be positive.''
                               [(''target_qubits'', PyInts target_qubits)] []))
            else if algorithm \<notin> set [FIX_DURATION_UNITARY, INSTANT_UNITARY] then
              Some ([], Inl (ArgumentsValueError
                               (''Algorithm must be one of '' @ INSTANT_UNITARY @ '' or ''
                                  @ FIX_DURATION_UNITARY)
                               [(''algorithm'', PyStr algorithm)] []))
            else
              (case quantum_register_size target_qubits quantum_registers of
                 Inl e \<Rightarrow> Some ([], Inl e)
               | Inr register_size \<Rightarrow>
                   let classical_registers =
                         (if add_measurement then Some (length target_qubits) else None);
                       unitary_time = (if algorithm = FIX_DURATION_UNITARY then gate_time else 0)
                   in
                     (case get_circuit_gate_list d gate_time unitary_time of
                        None \<Rightarrow> None
                      | Some (Inl e) \<Rightarrow> Some ([], Inl e)
                      | Some (Inr circuit_gate_list) \<Rightarrow>
                          (case walk_gate_list d target_qubits circuit_gate_list 0
                                  (pre_gates pre_post_gate_parameters target_qubits) of
                             (emitted, Inl e) \<Rightarrow> Some (emitted, Inl e)
                           | (emitted, Inr offset_count) \<Rightarrow>
                               let emitted' =
                                     emitted @ post_gates pre_post_gate_parameters target_qubits
                                       @ (if add_measurement then measurements target_qubits
                                          else [])
                               in Some (emitted',
                                        Inr \<lparr>qubits = register_size,
                                             clbits = classical_registers,
                                             name = circuit_name,
                                             data = emitted'\<rparr>)))))"

subsection \<open>The inner loop and one iteration of the outer loop\<close>

lemma id_gates_cond:
  assumes "0 < g"
  shows "(tc + (real k + 1) * g \<le> off) = (k < nat \<lfloor>(off - tc) / g\<rfloor>)"
proof -
  have "(tc + (real k + 1) * g \<le> off) = (real k + 1 \<le> (off - tc) / g)"
    using assms by (simp add: pos_le_divide_eq algebra_simps)
  also have "\<dots> = (of_int (int k + 1) \<le> (off - tc) / g)"
    by simp
  also have "\<dots> = (int k + 1 \<le> \<lfloor>(off - tc) / g\<rfloor>)"
    by (simp only: le_floor_iff)
  also have "\<dots> = (k < nat \<lfloor>(off - tc) / g\<rfloor>)"
    by linarith
  finally show ?thesis .
qed

lemma id_gates_loop_result:
  assumes "0 < g"
  shows "id_gates_loop tc g off k ops =
           Some (max k (nat \<lfloor>(off - tc) / g\<rfloor>),
                 ops @ replicate (max k (nat \<lfloor>(off - tc) / g\<rfloor>) - k) ''id'')"
proof (induction "nat \<lfloor>(off - tc) / g\<rfloor> - k" arbitrary: k ops)
  case 0
  then have "\<not> k < nat \<lfloor>(off - tc) / g\<rfloor>" by simp
  then have "\<not> tc + (real k + 1) * g \<le> off"
    using id_gates_cond [OF assms] by simp
  then have "id_gates_loop tc g off k ops = Some (k, ops)"
    by (subst id_gates_loop.simps) simp
  moreover have "max k (nat \<lfloor>(off - tc) / g\<rfloor>) = k"
    using 0 by simp
  ultimately show ?case by simp
next
  case (Suc m)
  then have less: "k < nat \<lfloor>(off - tc) / g\<rfloor>" by simp
  then have "tc + (real k + 1) * g \<le> off"
    using id_gates_cond [OF assms] by simp
  then have "id_gates_loop tc g off k ops = id_gates_loop tc g off (k + 1) (ops @ [''id''])"
    by (subst id_gates_loop.simps) simp
  also have "\<dots> = Some (max (k + 1) (nat \<lfloor>(off - tc) / g\<rfloor>),
                 (ops @ [''id'']) @ replicate (max (k + 1) (nat \<lfloor>(off - tc) / g\<rfloor>) - (k + 1)) ''id'')"
    using Suc by (intro Suc.hyps(1)) simp
  also have "\<dots> = Some (max k (nat \<lfloor>(off - tc) / g\<rfloor>),
                 ops @ replicate (max k (nat \<lfloor>(off - tc) / g\<rfloor>) - k) ''id'')"
  proof -
    have "max (k + 1) (nat \<lfloor>(off - tc) / g\<rfloor>) = nat \<lfloor>(off - tc) / g\<rfloor>"
         "max k (nat \<lfloor>(off - tc) / g\<rfloor>) = nat \<lfloor>(off - tc) / g\<rfloor>"
      using less by simp_all
    moreover have "nat \<lfloor>(off - tc) / g\<rfloor> - k = Suc (nat \<lfloor>(off - tc) / g\<rfloor> - (k + 1))"
      using less by simp
    ultimately show ?thesis by (simp add: replicate_append_same)
  qed
  finally show ?case .
qed



lemma isclose_zero: "isclose x 0 = (\<bar>x\<bar> \<le> 1 / 100000000)"
  by (simp add: isclose_def)

lemma step_out_of_range:
  "length (offsets d) \<le> i \<Longrightarrow> gate_list_step d g u i s = Some (Inl IndexError)"
  by (simp add: gate_list_step_def split: prod.splits)

lemma step_zero_distance:
  assumes "i < length (offsets d)" and "isclose (offsets d ! i - tc) 0"
  shows "gate_list_step d g u i (tc, ops) =
           Some (Inr (if isclose (rabi_rotations d ! i + azimuthal_angles d ! i
                                    + detuning_rotations d ! i) 0
                      then offsets d ! i else offsets d ! i + u,
                      ops @ [''offset'']))"
  using assms by (simp add: gate_list_step_def)

lemma step_negative_distance:
  assumes "i < length (offsets d)" and "offsets d ! i - tc < - (1 / 100000000)"
  shows "gate_list_step d g u i (tc, ops) =
           Some (Inl (offsets_error d))"
  using assms by (simp add: gate_list_step_def isclose_zero)

lemma step_positive_distance:
  assumes "0 < g" and "i < length (offsets d)" and "1 / 100000000 < offsets d ! i - tc"
  shows "gate_list_step d g u i (tc, ops) =
           Some (Inr (offsets d ! i + u,
                      ops @ replicate (nat \<lfloor>(offsets d ! i - tc) / g\<rfloor>) ''id'' @ [''offset'']))"
proof -
  have "\<not> isclose (offsets d ! i - tc) 0" and "\<not> offsets d ! i - tc < 0"
    and "offsets d ! i - tc \<noteq> 0"
    using assms(3) by (simp_all add: isclose_zero)
  then show ?thesis
    using assms(2) id_gates_loop_result [OF assms(1), of tc "offsets d ! i" 0 ops]
    by (simp add: gate_list_step_def)
qed

lemma step_cases:
  assumes "i < length (offsets d)"
  obtains "isclose (offsets d ! i - tc) 0"
  | "offsets d ! i - tc < - (1 / 100000000)"
  | "1 / 100000000 < offsets d ! i - tc"
proof -
  have "\<bar>offsets d ! i - tc\<bar> \<le> 1 / 100000000
        \<or> offsets d ! i - tc < - (1 / 100000000)
        \<or> 1 / 100000000 < offsets d ! i - tc"
    by linarith
  then show thesis
    using that unfolding isclose_zero by blast
qed

lemma step_total:
  assumes "0 < g"
  shows "\<exists>r. gate_list_step d g u i s = Some r"
proof (cases "i < length (offsets d)")
  case False
  then show ?thesis by (simp add: step_out_of_range)
next
  case True
  obtain tc ops where s: "s = (tc, ops)" by (cases s)
  show ?thesis unfolding s
  proof (rule step_cases [OF True, of tc])
    assume "isclose (offsets d ! i - tc) 0"
    then show "\<exists>r. gate_list_step d g u i (tc, ops) = Some r"
      using True by (simp add: step_zero_distance)
  next
    assume "offsets d ! i - tc < - (1 / 100000000)"
    then show "\<exists>r. gate_list_step d g u i (tc, ops) = Some r"
      using True by (simp add: step_negative_distance)
  next
    assume "1 / 100000000 < offsets d ! i - tc"
    then show "\<exists>r. gate_list_step d g u i (tc, ops) = Some r"
      using True assms step_positive_distance [of g i d tc u ops] by simp
  qed
qed


lemma step_Inl_iff:
  "gate_list_step d g u i (tc, ops) = Some (Inl e) \<longleftrightarrow>
     (length (offsets d) \<le> i \<and> e = IndexError)
     \<or> (i < length (offsets d) \<and> offsets d ! i - tc < - (1 / 100000000)
        \<and> e = offsets_error d)"
proof (cases "i < length (offsets d)")
  case False
  then show ?thesis by (auto simp: step_out_of_range)
next
  case True
  show ?thesis
  proof (rule step_cases [OF True, of tc])
    assume "isclose (offsets d ! i - tc) 0"
    then show ?thesis using True by (auto simp: step_zero_distance isclose_zero)
  next
    assume "offsets d ! i - tc < - (1 / 100000000)"
    then show ?thesis using True by (auto simp: step_negative_distance)
  next
    assume pos: "1 / 100000000 < offsets d ! i - tc"
    then have "\<not> isclose (offsets d ! i - tc) 0" and "\<not> offsets d ! i - tc < 0"
      and "offsets d ! i - tc \<noteq> 0"
      by (simp_all add: isclose_zero)
    then have "gate_list_step d g u i (tc, ops) \<noteq> Some (Inl e)"
      using True by (auto simp: gate_list_step_def split: option.splits)
    then show ?thesis using pos True by auto
  qed
qed

subsection \<open>The outer loop\<close>

lemma loop_append:
  "gate_list_loop d g u (xs @ ys) s =
     (case gate_list_loop d g u xs s of
        None \<Rightarrow> None
      | Some (Inl e) \<Rightarrow> Some (Inl e)
      | Some (Inr s') \<Rightarrow> gate_list_loop d g u ys s')"
  by (induction xs arbitrary: s) (auto split: option.splits sum.splits)

lemma loop_single:
  "gate_list_loop d g u [i] s = gate_list_step d g u i s"
  by (auto split: option.splits sum.splits)

lemma loop_upt_Suc:
  "gate_list_loop d g u [0..<Suc n] s =
     (case gate_list_loop d g u [0..<n] s of
        None \<Rightarrow> None
      | Some (Inl e) \<Rightarrow> Some (Inl e)
      | Some (Inr s') \<Rightarrow> gate_list_step d g u n s')"
  by (simp only: upt_Suc_append [OF le0] loop_append loop_single)

lemma loop_total:
  assumes "0 < g"
  shows "\<exists>r. gate_list_loop d g u xs s = Some r"
proof (induction xs arbitrary: s)
  case Nil
  show ?case by simp
next
  case (Cons i xs)
  from step_total [OF assms] obtain r where r: "gate_list_step d g u i s = Some r"
    by blast
  show ?case
  proof (cases r)
    case (Inl e)
    with r show ?thesis by simp
  next
    case (Inr s')
    with r Cons [of s'] show ?thesis by simp
  qed
qed


lemma loop_Inl_iff:
  "gate_list_loop d g u [0..<n] s0 = Some (Inl e) \<longleftrightarrow>
     (\<exists>i<n. \<exists>s. gate_list_loop d g u [0..<i] s0 = Some (Inr s)
               \<and> gate_list_step d g u i s = Some (Inl e))"
proof (induction n)
  case 0
  show ?case by simp
next
  case (Suc n)
  show ?case
  proof (cases "gate_list_loop d g u [0..<n] s0")
    case None
    have "\<not> (\<exists>i<Suc n. \<exists>s. gate_list_loop d g u [0..<i] s0 = Some (Inr s)
               \<and> gate_list_step d g u i s = Some (Inl e))"
    proof
      assume "\<exists>i<Suc n. \<exists>s. gate_list_loop d g u [0..<i] s0 = Some (Inr s)
               \<and> gate_list_step d g u i s = Some (Inl e)"
      then obtain i s where i: "i < Suc n" "gate_list_loop d g u [0..<i] s0 = Some (Inr s)"
        "gate_list_step d g u i s = Some (Inl e)" by blast
      with None have "i < n" by (cases "i = n") auto
      with i(2,3) have "gate_list_loop d g u [0..<n] s0 = Some (Inl e)"
        using Suc by blast
      with None show False by simp
    qed
    with None show ?thesis by (simp add: loop_upt_Suc del: upt_Suc)
  next
    case (Some r)
    show ?thesis
    proof (cases r)
      case (Inl e')
      with Some have eq: "gate_list_loop d g u [0..<Suc n] s0 = Some (Inl e')"
        by (simp add: loop_upt_Suc del: upt_Suc)
      show ?thesis
      proof
        assume "gate_list_loop d g u [0..<Suc n] s0 = Some (Inl e)"
        with eq have "e' = e" by simp
        with Some Inl Suc obtain i s where "i < n"
          "gate_list_loop d g u [0..<i] s0 = Some (Inr s)"
          "gate_list_step d g u i s = Some (Inl e)" by blast
        then show "\<exists>i<Suc n. \<exists>s. gate_list_loop d g u [0..<i] s0 = Some (Inr s)
               \<and> gate_list_step d g u i s = Some (Inl e)"
          using less_Suc_eq by blast
      next
        assume "\<exists>i<Suc n. \<exists>s. gate_list_loop d g u [0..<i] s0 = Some (Inr s)
               \<and> gate_list_step d g u i s = Some (Inl e)"
        then obtain i s where i: "i < Suc n" "gate_list_loop d g u [0..<i] s0 = Some (Inr s)"
          "gate_list_step d g u i s = Some (Inl e)" by blast
        with Some Inl have "i < n" by (cases "i = n") auto
        with i(2,3) have "gate_list_loop d g u [0..<n] s0 = Some (Inl e)"
          using Suc by blast
        with Some Inl eq show "gate_list_loop d g u [0..<Suc n] s0 = Some (Inl e)"
          by simp
      qed
    next
      case (Inr s')
      with Some have eq: "gate_list_loop d g u [0..<Suc n] s0 = gate_list_step d g u n s'"
        by (simp add: loop_upt_Suc del: upt_Suc)
      show ?thesis
      proof
        assume "gate_list_loop d g u [0..<Suc n] s0 = Some (Inl e)"
        with eq have "gate_list_step d g u n s' = Some (Inl e)" by simp
        with Some Inr have "n < Suc n \<and> gate_list_loop d g u [0..<n] s0 = Some (Inr s')
               \<and> gate_list_step d g u n s' = Some (Inl e)" by simp
        then show "\<exists>i<Suc n. \<exists>s. gate_list_loop d g u [0..<i] s0 = Some (Inr s)
               \<and> gate_list_step d g u i s = Some (Inl e)"
          by blast
      next
        assume "\<exists>i<Suc n. \<exists>s. gate_list_loop d g u [0..<i] s0 = Some (Inr s)
               \<and> gate_list_step d g u i s = Some (Inl e)"
        then obtain i s where i: "i < Suc n" "gate_list_loop d g u [0..<i] s0 = Some (Inr s)"
          "gate_list_step d g u i s = Some (Inl e)" by blast
        have "i = n"
        proof (rule ccontr)
          assume "i \<noteq> n"
          with i(1) have "i < n" by simp
          with i(2,3) have "gate_list_loop d g u [0..<n] s0 = Some (Inl e)"
            using Suc by blast
          with Some Inr show False by simp
        qed
        with i(2,3) Some Inr eq show "gate_list_loop d g u [0..<Suc n] s0 = Some (Inl e)"
          by simp
      qed
    qed
  qed
qed

subsection \<open>The gate list and the walk over it\<close>


lemma builder_total:
  assumes "0 < g"
  shows "\<exists>r. get_circuit_gate_list d g u = Some r"
proof (cases "length (azimuthal_angles d) \<noteq> length (rabi_rotations d)
         \<or> length (detuning_rotations d) \<noteq> length (rabi_rotations d)")
  case True
  then show ?thesis by (auto simp: get_circuit_gate_list_def)
next
  case False
  from loop_total [OF assms] obtain r where
    "gate_list_loop d g u [0..<length (rabi_rotations d)] (0, []) = Some r"
    by blast
  with False show ?thesis
    by (cases r) (auto simp: get_circuit_gate_list_def)
qed






subsection \<open>The exceptions of the conversion\<close>








section \<open>The claims\<close>

text \<open>
  Each claim is stated on the model above. Floats are real numbers here, so a statement
  about a tolerance is about \<open>10\<^sup>-\<^sup>8\<close>, the absolute tolerance of
  \<^verbatim>\<open>numpy.isclose\<close>, exactly.
\<close>

subsection \<open>C1: exceptions and the gates already emitted\<close>




subsection \<open>C2: negative target qubits\<close>

text \<open>
  C2 says that a negative target qubit is rejected with \<^verbatim>\<open>ArgumentsValueError\<close>. The
  code compares \<^verbatim>\<open>np.any(target_qubits)\<close>, a truth value, with zero, which never holds:
  with the target qubits \<open>[0, -1]\<close> and a \<open>\<pi>\<close> pulse at offset \<open>0\<close> the check passes and
  the conversion returns a circuit with gates addressed to the register index \<open>-1\<close>.
\<close>

theorem negative_target_qubit_accepted:
  "\<not> of_bool (np_any [0, - 1]) < (0::int)
   \<and> convert_dds_to_quantum_circuit
     (Sequence \<lparr>offsets = [0], rabi_rotations = [pi], azimuthal_angles = [0],
                detuning_rotations = [0]\<rparr>)
     (Some [0, - 1]) (1 / 10) None True FIX_DURATION_UNITARY None None
   = Some ([U3 (pi / 2) (- pi / 2) (pi / 2) 0, Barrier 0,
            U3 (pi / 2) (- pi / 2) (pi / 2) (- 1), Barrier (- 1),
            U3 pi (- pi / 2) (pi / 2) 0, Barrier 0,
            U3 pi (- pi / 2) (pi / 2) (- 1), Barrier (- 1),
            U3 (pi / 2) (- pi / 2) (pi / 2) 0, BarrierAll,
            U3 (pi / 2) (- pi / 2) (pi / 2) (- 1), BarrierAll,
            Measure 0 0, Measure (- 1) 1],
           Inr \<lparr>qubits = 1, clbits = Some 2, name = None,
                data = [U3 (pi / 2) (- pi / 2) (pi / 2) 0, Barrier 0,
                        U3 (pi / 2) (- pi / 2) (pi / 2) (- 1), Barrier (- 1),
                        U3 pi (- pi / 2) (pi / 2) 0, Barrier 0,
                        U3 pi (- pi / 2) (pi / 2) (- 1), Barrier (- 1),
                        U3 (pi / 2) (- pi / 2) (pi / 2) 0, BarrierAll,
                        U3 (pi / 2) (- pi / 2) (pi / 2) (- 1), BarrierAll,
                        Measure 0 0, Measure (- 1) 1]\<rparr>)"
proof -
  have "\<not> pi \<le> 1 / 100000000"
    using pi_ge_two by linarith
  then show ?thesis
    by (simp add: convert_dds_to_quantum_circuit_def np_any_def quantum_register_size_def
        get_circuit_gate_list_def gate_list_step_def isclose_def pre_gates_def post_gates_def
        measurements_def get_rotations_def nonzero_pulse_counts_def instance_operation_def
        pulse_gates_def Let_def)
qed

subsection \<open>C3: the covered time after an offset at zero distance\<close>




subsection \<open>C4: the number of delays before an offset\<close>




subsection \<open>C5: several rotations at one offset\<close>



subsection \<open>C6: the gate of a pulse-slot\<close>

text \<open>
  C6: for the pulse at the pulse pointer the rotations are
  \<open>(x, y, z) = (amplitude \<cdot> cos phase, amplitude \<cdot> sin phase, detuning)\<close>, and the walk
  appends for every target qubit, followed by a barrier: \<open>U3 x (-\<pi>/2) (\<pi>/2)\<close> when \<open>x\<close>
  alone is not close to zero, \<open>U3 y 0 0\<close> when \<open>y\<close> alone is, \<open>U1 z\<close> when \<open>z\<close> alone is,
  and \<open>U3 0 0 0\<close> when none is; it then moves on to the next pulse.
\<close>

theorem pulse_slot_gates:
  assumes "offset_count < length (rabi_rotations d)"
    and "offset_count < length (azimuthal_angles d)"
    and "offset_count < length (detuning_rotations d)"
    and "gate \<noteq> ''id''"
    and "x = rabi_rotations d ! offset_count * cos (azimuthal_angles d ! offset_count)"
    and "y = rabi_rotations d ! offset_count * sin (azimuthal_angles d ! offset_count)"
    and "z = detuning_rotations d ! offset_count"
  shows "get_rotations (instance_operation d offset_count) = [x, y, z]
    \<and> (\<not> isclose x 0 \<and> isclose y 0 \<and> isclose z 0 \<longrightarrow>
         walk_gate_list d target_qubits (gate # gates) offset_count emitted
           = walk_gate_list d target_qubits gates (offset_count + 1)
               (emitted @ concat (map (\<lambda>qubit. [U3 x (- pi / 2) (pi / 2) qubit, Barrier qubit])
                                   target_qubits)))
    \<and> (isclose x 0 \<and> \<not> isclose y 0 \<and> isclose z 0 \<longrightarrow>
         walk_gate_list d target_qubits (gate # gates) offset_count emitted
           = walk_gate_list d target_qubits gates (offset_count + 1)
               (emitted @ concat (map (\<lambda>qubit. [U3 y 0 0 qubit, Barrier qubit]) target_qubits)))
    \<and> (isclose x 0 \<and> isclose y 0 \<and> \<not> isclose z 0 \<longrightarrow>
         walk_gate_list d target_qubits (gate # gates) offset_count emitted
           = walk_gate_list d target_qubits gates (offset_count + 1)
               (emitted @ concat (map (\<lambda>qubit. [U1 z qubit, Barrier qubit]) target_qubits)))
    \<and> (isclose x 0 \<and> isclose y 0 \<and> isclose z 0 \<longrightarrow>
         walk_gate_list d target_qubits (gate # gates) offset_count emitted
           = walk_gate_list d target_qubits gates (offset_count + 1)
               (emitted @ concat (map (\<lambda>qubit. [U3 0 0 0 qubit, Barrier qubit]) target_qubits)))"
proof -
  have rot: "get_rotations (instance_operation d offset_count) = [x, y, z]"
    by (simp add: get_rotations_def instance_operation_def assms(5-7))
  have range: "\<not> (length (rabi_rotations d) \<le> offset_count
              \<or> length (azimuthal_angles d) \<le> offset_count
              \<or> length (detuning_rotations d) \<le> offset_count)"
    using assms(1-3) by simp
  have step: "nonzero_pulse_counts [x, y, z] \<le> 1 \<Longrightarrow>
      walk_gate_list d target_qubits (gate # gates) offset_count emitted
        = walk_gate_list d target_qubits gates (offset_count + 1)
            (emitted @ concat (map (pulse_gates [x, y, z]) target_qubits))"
    using assms(4) range by (simp add: rot Let_def)
  show ?thesis
  proof (intro conjI impI)
    show "get_rotations (instance_operation d offset_count) = [x, y, z]" by (rule rot)
  next
    assume c: "\<not> isclose x 0 \<and> isclose y 0 \<and> isclose z 0"
    then have "pulse_gates [x, y, z] = (\<lambda>qubit. [U3 x (- pi / 2) (pi / 2) qubit, Barrier qubit])"
      by (auto simp: pulse_gates_def nonzero_pulse_counts_def)
    moreover from c have "nonzero_pulse_counts [x, y, z] \<le> 1"
      by (simp add: nonzero_pulse_counts_def)
    ultimately show "walk_gate_list d target_qubits (gate # gates) offset_count emitted
           = walk_gate_list d target_qubits gates (offset_count + 1)
               (emitted @ concat (map (\<lambda>qubit. [U3 x (- pi / 2) (pi / 2) qubit, Barrier qubit])
                                   target_qubits))"
      using step by simp
  next
    assume c: "isclose x 0 \<and> \<not> isclose y 0 \<and> isclose z 0"
    then have "pulse_gates [x, y, z] = (\<lambda>qubit. [U3 y 0 0 qubit, Barrier qubit])"
      by (auto simp: pulse_gates_def nonzero_pulse_counts_def)
    moreover from c have "nonzero_pulse_counts [x, y, z] \<le> 1"
      by (simp add: nonzero_pulse_counts_def)
    ultimately show "walk_gate_list d target_qubits (gate # gates) offset_count emitted
           = walk_gate_list d target_qubits gates (offset_count + 1)
               (emitted @ concat (map (\<lambda>qubit. [U3 y 0 0 qubit, Barrier qubit]) target_qubits))"
      using step by simp
  next
    assume c: "isclose x 0 \<and> isclose y 0 \<and> \<not> isclose z 0"
    then have "pulse_gates [x, y, z] = (\<lambda>qubit. [U1 z qubit, Barrier qubit])"
      by (auto simp: pulse_gates_def nonzero_pulse_counts_def)
    moreover from c have "nonzero_pulse_counts [x, y, z] \<le> 1"
      by (simp add: nonzero_pulse_counts_def)
    ultimately show "walk_gate_list d target_qubits (gate # gates) offset_count emitted
           = walk_gate_list d target_qubits gates (offset_count + 1)
               (emitted @ concat (map (\<lambda>qubit. [U1 z qubit, Barrier qubit]) target_qubits))"
      using step by simp
  next
    assume c: "isclose x 0 \<and> isclose y 0 \<and> isclose z 0"
    then have "pulse_gates [x, y, z] = (\<lambda>qubit. [U3 0 0 0 qubit, Barrier qubit])"
      by (auto simp: pulse_gates_def nonzero_pulse_counts_def)
    moreover from c have "nonzero_pulse_counts [x, y, z] \<le> 1"
      by (simp add: nonzero_pulse_counts_def)
    ultimately show "walk_gate_list d target_qubits (gate # gates) offset_count emitted
           = walk_gate_list d target_qubits gates (offset_count + 1)
               (emitted @ concat (map (\<lambda>qubit. [U3 0 0 0 qubit, Barrier qubit]) target_qubits))"
      using step by simp
  qed
qed

theorem pulse_slot_gates_witness:
  "walk_gate_list \<lparr>offsets = [0, 1, 2, 3], rabi_rotations = [1, 1, 0, 0],
                    azimuthal_angles = [0, pi / 2, 0, 0], detuning_rotations = [0, 0, 1, 0]\<rparr>
     [0] [''offset'', ''offset'', ''offset'', ''offset''] 0 []
   = ([U3 1 (- pi / 2) (pi / 2) 0, Barrier 0,
       U3 1 0 0 0, Barrier 0,
       U1 1 0, Barrier 0,
       U3 0 0 0 0, Barrier 0], Inr 4)"
proof -
  let ?d = "\<lparr>offsets = [0, 1, 2, 3], rabi_rotations = [1, 1, 0, 0],
             azimuthal_angles = [0, pi / 2, 0, 0], detuning_rotations = [0, 0, 1, 0 :: real]\<rparr>"
  have s0: "walk_gate_list ?d [0] [''offset'', ''offset'', ''offset'', ''offset''] 0 []
          = walk_gate_list ?d [0] [''offset'', ''offset'', ''offset''] 1
              [U3 1 (- pi / 2) (pi / 2) 0, Barrier 0]"
    using pulse_slot_gates [where offset_count = 0 and d = ?d and gate = "''offset''"
        and x = 1 and y = 0 and z = 0 and target_qubits = "[0]"
        and gates = "[''offset'', ''offset'', ''offset'']" and emitted = "[]"]
    by (simp add: isclose_def eval_nat_numeral del: walk_gate_list.simps)
  have s1: "walk_gate_list ?d [0] [''offset'', ''offset'', ''offset''] 1
              [U3 1 (- pi / 2) (pi / 2) 0, Barrier 0]
          = walk_gate_list ?d [0] [''offset'', ''offset''] 2
              [U3 1 (- pi / 2) (pi / 2) 0, Barrier 0, U3 1 0 0 0, Barrier 0]"
    using pulse_slot_gates [where offset_count = 1 and d = ?d and gate = "''offset''"
        and x = 0 and y = 1 and z = 0 and target_qubits = "[0]"
        and gates = "[''offset'', ''offset'']"
        and emitted = "[U3 1 (- pi / 2) (pi / 2) 0, Barrier 0]"]
    by (simp add: isclose_def eval_nat_numeral del: walk_gate_list.simps)
  have s2: "walk_gate_list ?d [0] [''offset'', ''offset''] 2
              [U3 1 (- pi / 2) (pi / 2) 0, Barrier 0, U3 1 0 0 0, Barrier 0]
          = walk_gate_list ?d [0] [''offset''] 3
              [U3 1 (- pi / 2) (pi / 2) 0, Barrier 0, U3 1 0 0 0, Barrier 0, U1 1 0, Barrier 0]"
    using pulse_slot_gates [where offset_count = 2 and d = ?d and gate = "''offset''"
        and x = 0 and y = 0 and z = 1 and target_qubits = "[0]"
        and gates = "[''offset'']"
        and emitted = "[U3 1 (- pi / 2) (pi / 2) 0, Barrier 0, U3 1 0 0 0, Barrier 0]"]
    by (simp add: isclose_def eval_nat_numeral del: walk_gate_list.simps)
  have s3: "walk_gate_list ?d [0] [''offset''] 3
              [U3 1 (- pi / 2) (pi / 2) 0, Barrier 0, U3 1 0 0 0, Barrier 0, U1 1 0, Barrier 0]
          = walk_gate_list ?d [0] [] 4
              [U3 1 (- pi / 2) (pi / 2) 0, Barrier 0, U3 1 0 0 0, Barrier 0, U1 1 0, Barrier 0,
               U3 0 0 0 0, Barrier 0]"
    using pulse_slot_gates [where offset_count = 3 and d = ?d and gate = "''offset''"
        and x = 0 and y = 0 and z = 0 and target_qubits = "[0]"
        and gates = "[]"
        and emitted = "[U3 1 (- pi / 2) (pi / 2) 0, Barrier 0, U3 1 0 0 0, Barrier 0,
                        U1 1 0, Barrier 0]"]
    by (simp add: isclose_def eval_nat_numeral del: walk_gate_list.simps)
  show ?thesis
    unfolding s0 s1 s2 s3 by simp
qed

subsection \<open>C7: offsets that cannot be placed\<close>

text \<open>
  C7: the gate list fails with the exception about offsets exactly when the three
  rotation arrays agree in length and some offset lies more than \<open>10\<^sup>-\<^sup>8\<close> before
  the time covered by the offsets in front of it; an offset within \<open>10\<^sup>-\<^sup>8\<close> of the
  covered time gets its pulse-slot, with no delay and no exception.
\<close>

theorem offsets_error_iff:
  "(get_circuit_gate_list d gate_time unitary_time = Some (Inl (offsets_error d))
    \<longleftrightarrow>
      length (azimuthal_angles d) = length (rabi_rotations d)
    \<and> length (detuning_rotations d) = length (rabi_rotations d)
    \<and> (\<exists>i time_covered circuit_operations.
          i < length (rabi_rotations d) \<and> i < length (offsets d)
        \<and> gate_list_loop d gate_time unitary_time [0..<i] (0, [])
            = Some (Inr (time_covered, circuit_operations))
        \<and> offsets d ! i - time_covered < - (1 / 100000000)))
   \<and> (operation_idx < length (offsets d)
      \<and> \<bar>offsets d ! operation_idx - tc\<bar> \<le> 1 / 100000000
    \<longrightarrow> (\<exists>tc'. gate_list_step d gate_time unitary_time operation_idx (tc, ops)
                 = Some (Inr (tc', ops @ [''offset'']))))"
proof (intro conjI impI)
  show "get_circuit_gate_list d gate_time unitary_time = Some (Inl (offsets_error d))
    \<longleftrightarrow>
      length (azimuthal_angles d) = length (rabi_rotations d)
    \<and> length (detuning_rotations d) = length (rabi_rotations d)
    \<and> (\<exists>i time_covered circuit_operations.
          i < length (rabi_rotations d) \<and> i < length (offsets d)
        \<and> gate_list_loop d gate_time unitary_time [0..<i] (0, [])
            = Some (Inr (time_covered, circuit_operations))
        \<and> offsets d ! i - time_covered < - (1 / 100000000))"
    (is "?L \<longleftrightarrow> ?A \<and> ?B \<and> ?C")
  proof (cases "?A \<and> ?B")
    case False
    then have "get_circuit_gate_list d gate_time unitary_time = Some (Inl ValueError)"
      by (auto simp: get_circuit_gate_list_def)
    with False show ?thesis by (auto simp: offsets_error_def)
  next
    case True
    have "?L \<longleftrightarrow>
            gate_list_loop d gate_time unitary_time [0..<length (rabi_rotations d)] (0, [])
              = Some (Inl (offsets_error d))"
      using True by (auto simp: get_circuit_gate_list_def split: option.splits sum.splits)
    also have "\<dots> \<longleftrightarrow> ?C"
      unfolding loop_Inl_iff
      by (auto simp: step_Inl_iff offsets_error_def)
    finally show ?thesis using True by simp
  qed
next
  assume "operation_idx < length (offsets d)
      \<and> \<bar>offsets d ! operation_idx - tc\<bar> \<le> 1 / 100000000"
  then show "\<exists>tc'. gate_list_step d gate_time unitary_time operation_idx (tc, ops)
                 = Some (Inr (tc', ops @ [''offset'']))"
    by (simp add: step_zero_distance isclose_zero)
qed

theorem offsets_error_iff_witness:
  "get_circuit_gate_list \<lparr>offsets = [0, 0], rabi_rotations = [1, 1], azimuthal_angles = [0, 0],
                           detuning_rotations = [0, 0]\<rparr> (1 / 10) (1 / 10)
     = Some (Inl (offsets_error \<lparr>offsets = [0, 0], rabi_rotations = [1, 1],
                                   azimuthal_angles = [0, 0], detuning_rotations = [0, 0]\<rparr>))
   \<and> (\<exists>tc'. gate_list_step \<lparr>offsets = [0, 0], rabi_rotations = [1, 1],
                                azimuthal_angles = [0, 0], detuning_rotations = [0, 0]\<rparr>
                (1 / 10) (1 / 10) 0 (0, []) = Some (Inr (tc', [''offset''])))"
proof -
  let ?d = "\<lparr>offsets = [0, 0], rabi_rotations = [1, 1], azimuthal_angles = [0, 0],
             detuning_rotations = [0, 0 :: real]\<rparr>"
  have "(1::nat) < length (rabi_rotations ?d) \<and> 1 < length (offsets ?d)
        \<and> gate_list_loop ?d (1 / 10) (1 / 10) [0..<1] (0, []) = Some (Inr (1 / 10, [''offset'']))
        \<and> offsets ?d ! 1 - 1 / 10 < - (1 / 100000000)"
    by (simp add: gate_list_step_def isclose_def)
  then have "\<exists>i time_covered circuit_operations.
          i < length (rabi_rotations ?d) \<and> i < length (offsets ?d)
        \<and> gate_list_loop ?d (1 / 10) (1 / 10) [0..<i] (0, [])
            = Some (Inr (time_covered, circuit_operations))
        \<and> offsets ?d ! i - time_covered < - (1 / 100000000)"
    by blast
  with offsets_error_iff [of ?d "1 / 10" "1 / 10" 0 0 "[]"] show ?thesis
    by simp
qed

subsection \<open>C8: one pulse-slot for each pulse\<close>



subsection \<open>C9: termination\<close>

text \<open>
  C9: for \<open>gate_time > 0\<close> the gate list of every sequence is computed (the function
  returns, with a list or an exception), and the inner loop for an offset at or after the
  covered time runs at most \<open>\<lceil>(o\<^sub>i - time_covered) / gate_time\<rceil>\<close> times.
\<close>

theorem gate_list_terminates:
  assumes "0 < gate_time"
  shows "(\<exists>r. get_circuit_gate_list d gate_time unitary_time = Some r)
       \<and> (time_covered \<le> offset \<longrightarrow>
            (\<exists>number_of_id_gates ops.
                id_gates_loop time_covered gate_time offset 0 circuit_operations
                  = Some (number_of_id_gates, ops)
              \<and> int number_of_id_gates \<le> \<lceil>(offset - time_covered) / gate_time\<rceil>))"
proof (intro conjI impI)
  show "\<exists>r. get_circuit_gate_list d gate_time unitary_time = Some r"
    by (rule builder_total [OF assms])
next
  assume le: "time_covered \<le> offset"
  let ?q = "(offset - time_covered) / gate_time"
  have "0 \<le> ?q" using le assms by simp
  then have "0 \<le> \<lfloor>?q\<rfloor>" by simp
  then have "int (nat \<lfloor>?q\<rfloor>) = \<lfloor>?q\<rfloor>" by simp
  also have "\<dots> \<le> \<lceil>?q\<rceil>" by (rule floor_le_ceiling)
  finally have bound: "int (nat \<lfloor>?q\<rfloor>) \<le> \<lceil>?q\<rceil>" .
  have "id_gates_loop time_covered gate_time offset 0 circuit_operations
          = Some (nat \<lfloor>?q\<rfloor>, circuit_operations @ replicate (nat \<lfloor>?q\<rfloor>) ''id'')"
    using id_gates_loop_result [OF assms, of time_covered offset 0 circuit_operations] by simp
  with bound show "\<exists>number_of_id_gates ops.
                id_gates_loop time_covered gate_time offset 0 circuit_operations
                  = Some (number_of_id_gates, ops)
              \<and> int number_of_id_gates \<le> \<lceil>(offset - time_covered) / gate_time\<rceil>"
    by blast
qed

theorem gate_list_terminates_witness:
  "(\<exists>r. get_circuit_gate_list \<lparr>offsets = [1 / 4], rabi_rotations = [1], azimuthal_angles = [0],
                                 detuning_rotations = [0]\<rparr> (1 / 10) (1 / 10) = Some r)
   \<and> (\<exists>number_of_id_gates ops.
         id_gates_loop 0 (1 / 10) (1 / 4) 0 [] = Some (number_of_id_gates, ops)
       \<and> int number_of_id_gates \<le> 3)"
proof -
  have g: "(0::real) < 1 / 10" by simp
  have "\<lceil>(1 / 4 - 0) / (1 / 10 :: real)\<rceil> = 3"
    by (simp add: ceiling_eq_iff)
  with gate_list_terminates [OF g, of "\<lparr>offsets = [1 / 4], rabi_rotations = [1],
      azimuthal_angles = [0], detuning_rotations = [0]\<rparr>" "1 / 10" 0 "1 / 4" "[]"]
  show ?thesis by simp
qed

subsection \<open>C10: the empty list of target qubits\<close>

text \<open>
  C10: with the empty list of target qubits and the other parameters valid, the check for
  negative target qubits does not fire and the conversion fails with the built-in
  \<^verbatim>\<open>ValueError\<close> of \<^verbatim>\<open>max\<close>, before any gate is emitted.
\<close>

theorem empty_target_qubits_value_error:
  assumes "case pre_post_gate_parameters of None \<Rightarrow> True | Some p \<Rightarrow> length p = 3"
    and "0 < gate_time"
    and "algorithm = FIX_DURATION_UNITARY \<or> algorithm = INSTANT_UNITARY"
  shows "\<not> of_bool (np_any []) < (0::int)
       \<and> convert_dds_to_quantum_circuit (Sequence d) (Some []) gate_time pre_post_gate_parameters
           add_measurement algorithm quantum_registers circuit_name
         = Some ([], Inl ValueError)"
  using assms
  by (auto simp: convert_dds_to_quantum_circuit_def quantum_register_size_def np_any_def
        split: option.splits)

theorem empty_target_qubits_value_error_witness:
  "convert_dds_to_quantum_circuit
     (Sequence \<lparr>offsets = [0], rabi_rotations = [pi], azimuthal_angles = [0],
                detuning_rotations = [0]\<rparr>)
     (Some []) (1 / 10) None True FIX_DURATION_UNITARY None None
   = Some ([], Inl ValueError)
   \<and> convert_dds_to_quantum_circuit
     (Sequence \<lparr>offsets = [0], rabi_rotations = [pi], azimuthal_angles = [0],
                detuning_rotations = [0]\<rparr>)
     (Some []) (1 / 10) (Some [0, 0, 0]) False INSTANT_UNITARY (Some 3) (Some ''c'')
   = Some ([], Inl ValueError)"
  using empty_target_qubits_value_error [of None "1 / 10" FIX_DURATION_UNITARY
      "\<lparr>offsets = [0], rabi_rotations = [pi], azimuthal_angles = [0], detuning_rotations = [0]\<rparr>"
      True None None]
    empty_target_qubits_value_error [of "Some [0, 0, 0]" "1 / 10" INSTANT_UNITARY
      "\<lparr>offsets = [0], rabi_rotations = [pi], azimuthal_angles = [0], detuning_rotations = [0]\<rparr>"
      False "Some 3" "Some ''c''"]
  by simp

end
